theory Spec2Isabelle
  imports Main "HOL-Library.Word"
begin

unbundle bit_operations_syntax

section \<open>Values, errors and the part of Python's \<open>struct\<close> module the codec calls\<close>

text \<open>
  The codec of \<^verbatim>\<open>src/src/types/buffer.py\<close> works on Python \<^verbatim>\<open>bytes\<close> (lists of
  octets) and on Python's unbounded integers (\<open>int\<close>). Every \<^verbatim>\<open>raise\<close> is a value
  \<open>Inl e\<close>. \<open>NotModelled\<close> is not a Python exception: it stands for the field values
  of the \<^verbatim>\<open>struct\<close> formats whose values this development does not describe
  (floats, signed and narrower integers, repeat counts, padding), so that no value is
  invented for them. The size of every format is described.
\<close>

type_synonym byte = "8 word"

datatype error = ValueError | StructError | TypeError | NameError | UnicodeError | ZlibError
  | NotModelled

datatype pyval = PInt int | PBool bool | PTuple "pyval list" | PNone

text \<open>
  The sizes below are those of CPython 3 on 64-bit Linux, as \<^verbatim>\<open>_struct.c\<close> computes
  them. A \<^verbatim>\<open>struct\<close> format is an optional byte-order mark (one of \<^verbatim>\<open>@=<>!\<close>,
  first character only) followed by items: white space is skipped before an item, a
  run of digits is a repeat count and must be followed at once by a format code, and a
  character that is no format code of the mode makes every function of the module
  raise \<^verbatim>\<open>struct.error: bad char in struct format\<close>; a byte-order mark in any later
  position is such a character. Without a mark, or with \<^verbatim>\<open>@\<close>, sizes are native and
  each item is aligned; with any other mark sizes are standard and nothing is aligned.
  A size beyond \<^verbatim>\<open>sys.maxsize\<close> raises.
\<close>

definition order_chars :: "char list" where
  "order_chars = ''@=<>!''"

definition fmt_codes :: "string \<Rightarrow> string" where
  "fmt_codes f = (case f of [] \<Rightarrow> [] | c # cs \<Rightarrow> if c \<in> set order_chars then cs else f)"

definition big_endian :: "string \<Rightarrow> bool" where
  "big_endian f = (case f of [] \<Rightarrow> False | c # cs \<Rightarrow> c = CHR ''>'' \<or> c = CHR ''!'')"

definition native_mode :: "string \<Rightarrow> bool" where
  "native_mode f = (case f of [] \<Rightarrow> True | c # cs \<Rightarrow> c = CHR ''@'' \<or> c \<notin> set order_chars)"

definition ssize_max :: nat where
  "ssize_max = 2 ^ 63 - 1"

definition is_space :: "char \<Rightarrow> bool" where
  "is_space c = (c \<in> set [CHR 0x09, CHR 0x0A, CHR 0x0B, CHR 0x0C, CHR 0x0D, CHR 0x20])"

definition is_digit :: "char \<Rightarrow> bool" where
  "is_digit c = (c \<in> set ''0123456789'')"

definition digit_val :: "char \<Rightarrow> nat" where
  "digit_val c = of_char c - 48"

definition std_size :: "char \<Rightarrow> nat option" where
  "std_size c =
     (if c \<in> set ''xcbB?sp'' then Some 1
      else if c \<in> set ''hHe'' then Some 2
      else if c \<in> set ''iIlLf'' then Some 4
      else if c \<in> set ''qQd'' then Some 8
      else None)"

definition native_size :: "char \<Rightarrow> nat option" where
  "native_size c =
     (if c \<in> set ''xcbB?sp'' then Some 1
      else if c \<in> set ''hHe'' then Some 2
      else if c \<in> set ''iIf'' then Some 4
      else if c \<in> set ''lLqQnNdP'' then Some 8
      else None)"

text \<open>\<^verbatim>\<open>align\<close>: a native item of size \<open>al\<close> starts at a multiple of \<open>al\<close>.\<close>

definition align :: "nat \<Rightarrow> nat \<Rightarrow> nat" where
  "align sz al = (if 0 < sz then sz + ((al - 1) - (sz - 1) mod al) else sz)"

definition add_item :: "bool \<Rightarrow> nat \<Rightarrow> nat \<Rightarrow> char \<Rightarrow> error + nat" where
  "add_item native num sz c =
     (case (if native then native_size c else std_size c) of
        None \<Rightarrow> Inl StructError
      | Some itemsize \<Rightarrow>
          (let sz1 = (if native then align sz itemsize else sz)
           in if ssize_max < sz1 then Inl StructError
              else if ssize_max - sz1 < num * itemsize then Inl StructError
              else Inr (sz1 + num * itemsize)))"

text \<open>The loop of \<^verbatim>\<open>prepare_s\<close>: the mode, the repeat count read so far (if any), the
  size so far, and the rest of the format.\<close>

fun calc_loop :: "bool \<Rightarrow> nat option \<Rightarrow> nat \<Rightarrow> string \<Rightarrow> error + nat" where
  "calc_loop native None sz [] = Inr sz"
| "calc_loop native (Some num) sz [] = Inl StructError"
| "calc_loop native None sz (c # cs) =
     (if is_space c then calc_loop native None sz cs
      else if is_digit c then calc_loop native (Some (digit_val c)) sz cs
      else
        (case add_item native 1 sz c of
           Inl e \<Rightarrow> Inl e
         | Inr sz' \<Rightarrow> calc_loop native None sz' cs))"
| "calc_loop native (Some num) sz (c # cs) =
     (if is_digit c then
        (if ssize_max < num * 10 + digit_val c then Inl StructError
         else calc_loop native (Some (num * 10 + digit_val c)) sz cs)
      else
        (case add_item native num sz c of
           Inl e \<Rightarrow> Inl e
         | Inr sz' \<Rightarrow> calc_loop native None sz' cs))"

text \<open>A format is a Python \<^verbatim>\<open>str\<close>: it is encoded to ASCII first
  (\<^verbatim>\<open>UnicodeEncodeError\<close>), and a null character is refused.\<close>

definition calcsize :: "string \<Rightarrow> error + nat" where
  "calcsize f =
     (if list_ex (\<lambda>c. 128 \<le> (of_char c :: nat)) f then Inl UnicodeError
      else if CHR 0x00 \<in> set f then Inl StructError
      else calc_loop (native_mode f) None 0 (fmt_codes f))"

text \<open>
  The values of the fields are described for the formats whose codes are \<^verbatim>\<open>B\<close>,
  \<^verbatim>\<open>?\<close> and \<^verbatim>\<open>Q\<close> alone (white space apart), \<^verbatim>\<open>Q\<close> in a big-endian format only:
  one-byte fields need no alignment and have no byte order. These are the formats of
  the methods modelled below. On any other format that \<^verbatim>\<open>struct\<close> accepts, the
  result is \<open>NotModelled\<close>.
\<close>

definition value_codes :: "string \<Rightarrow> string" where
  "value_codes f = filter (\<lambda>c. \<not> is_space c) (fmt_codes f)"

definition modelled_values :: "string \<Rightarrow> bool" where
  "modelled_values f =
     (list_all (\<lambda>c. c \<in> set ''B?Q'') (value_codes f)
      \<and> (big_endian f \<or> CHR ''Q'' \<notin> set (value_codes f)))"

definition field_size :: "char \<Rightarrow> nat" where
  "field_size c = (if c = CHR ''Q'' then 8 else 1)"

definition be_int :: "byte list \<Rightarrow> int" where
  "be_int bs = foldl (\<lambda>acc b. acc * 256 + uint b) 0 bs"

definition be_bytes :: "nat \<Rightarrow> int \<Rightarrow> byte list" where
  "be_bytes n v = map (\<lambda>i. word_of_int (drop_bit (8 * i) v)) (rev [0..<n])"

definition decode_field :: "char \<Rightarrow> byte list \<Rightarrow> pyval" where
  "decode_field c bs = (if c = CHR ''?'' then PBool (be_int bs \<noteq> 0) else PInt (be_int bs))"

fun decode_fields :: "string \<Rightarrow> byte list \<Rightarrow> pyval list" where
  "decode_fields [] data = []"
| "decode_fields (c # cs) data =
     decode_field c (take (field_size c) data) # decode_fields cs (drop (field_size c) data)"

definition struct_unpack :: "string \<Rightarrow> byte list \<Rightarrow> error + pyval list" where
  "struct_unpack f data =
     (case calcsize f of
        Inl e \<Rightarrow> Inl e
      | Inr n \<Rightarrow>
          if length data \<noteq> n then Inl StructError
          else if \<not> modelled_values f then Inl NotModelled
          else Inr (decode_fields (value_codes f) data))"

text \<open>Python's \<^verbatim>\<open>bool\<close> is a subclass of \<^verbatim>\<open>int\<close>; tuples and \<^verbatim>\<open>None\<close> are no integers.\<close>

definition as_int :: "pyval \<Rightarrow> error + int" where
  "as_int v =
     (case v of
        PInt i \<Rightarrow> Inr i
      | PBool b \<Rightarrow> Inr (if b then 1 else 0)
      | PTuple vs \<Rightarrow> Inl TypeError
      | PNone \<Rightarrow> Inl TypeError)"

definition truthy :: "pyval \<Rightarrow> bool" where
  "truthy v =
     (case v of PInt i \<Rightarrow> i \<noteq> 0 | PBool b \<Rightarrow> b | PTuple vs \<Rightarrow> vs \<noteq> [] | PNone \<Rightarrow> False)"

definition encode_field :: "char \<Rightarrow> pyval \<Rightarrow> error + byte list" where
  "encode_field c v =
     (if c = CHR ''?'' then Inr [if truthy v then 1 else 0]
      else
        (case as_int v of
           Inl e \<Rightarrow> Inl StructError
         | Inr i \<Rightarrow>
             if 0 \<le> i \<and> i < 2 ^ (8 * field_size c) then Inr (be_bytes (field_size c) i)
             else Inl StructError))"

fun encode_fields :: "string \<Rightarrow> pyval list \<Rightarrow> error + byte list" where
  "encode_fields [] [] = Inr []"
| "encode_fields (c # cs) (v # vs) =
     (case encode_field c v of
        Inl e \<Rightarrow> Inl e
      | Inr bs \<Rightarrow> (case encode_fields cs vs of Inl e \<Rightarrow> Inl e | Inr rest \<Rightarrow> Inr (bs @ rest)))"
| "encode_fields cs vs = Inl StructError"

definition struct_pack :: "string \<Rightarrow> pyval list \<Rightarrow> error + byte list" where
  "struct_pack f vals =
     (case calcsize f of
        Inl e \<Rightarrow> Inl e
      | Inr n \<Rightarrow>
          if \<not> modelled_values f then Inl NotModelled
          else encode_fields (value_codes f) vals)"

section \<open>The Buffer class: raw mechanics\<close>

text \<open>
  \<^verbatim>\<open>Buffer.__init__\<close> stores the bytes and sets \<^verbatim>\<open>pos = 0\<close>. The cursor is a Python
  integer and nothing in the class bounds it, so it is an \<open>int\<close> here.
\<close>

record Buffer =
  buf :: "byte list"
  pos :: int

definition new_Buffer :: "byte list \<Rightarrow> Buffer" where
  "new_Buffer data = \<lparr>buf = data, pos = 0\<rparr>"

definition write_buf :: "byte list \<Rightarrow> Buffer \<Rightarrow> Buffer" where
  "write_buf data b = b\<lparr>buf := buf b @ data\<rparr>"

text \<open>
  Python's slice \<^verbatim>\<open>xs[a:b]\<close>: a negative index counts from the end, and every index
  is clamped to \<open>0 .. len(xs)\<close>; an empty range gives the empty sequence. Slicing never
  raises.
\<close>

definition slice_index :: "nat \<Rightarrow> int \<Rightarrow> nat" where
  "slice_index n i = (if i < 0 then nat (max (i + int n) 0) else min (nat i) n)"

definition py_slice :: "'a list \<Rightarrow> int \<Rightarrow> int \<Rightarrow> 'a list" where
  "py_slice xs a b =
     (let s = slice_index (length xs) a; e = slice_index (length xs) b
      in take (e - s) (drop s xs))"

definition py_slice_from :: "'a list \<Rightarrow> int \<Rightarrow> 'a list" where
  "py_slice_from xs a = drop (slice_index (length xs) a) xs"

text \<open>
  \<^verbatim>\<open>read\<close>: the \<^verbatim>\<open>finally\<close> clause runs after the slice is taken, and in the
  branch without a length the local \<^verbatim>\<open>length\<close> has been set to \<^verbatim>\<open>len(self.buf)\<close>.
\<close>

definition read :: "int option \<Rightarrow> Buffer \<Rightarrow> byte list \<times> Buffer" where
  "read len b =
     (case len of
        None \<Rightarrow> (py_slice_from (buf b) (pos b), b\<lparr>pos := pos b + int (length (buf b))\<rparr>)
      | Some n \<Rightarrow> (py_slice (buf b) (pos b) (pos b + n), b\<lparr>pos := pos b + n\<rparr>))"

definition reset :: "Buffer \<Rightarrow> Buffer" where
  "reset b = b\<lparr>pos := 0\<rparr>"

text \<open>
  \<^verbatim>\<open>unpack(f)\<close> evaluates \<^verbatim>\<open>struct.calcsize(f)\<close>, then \<^verbatim>\<open>self.read\<close>, then
  \<^verbatim>\<open>struct.unpack('>' + f, ...)\<close>: an error of the last call leaves the cursor advanced.
\<close>

definition unpack :: "string \<Rightarrow> Buffer \<Rightarrow> (error + pyval) \<times> Buffer" where
  "unpack f b =
     (case calcsize f of
        Inl e \<Rightarrow> (Inl e, b)
      | Inr n \<Rightarrow>
          (let (data, b') = read (Some (int n)) b
           in case struct_unpack (CHR ''>'' # f) data of
                Inl e \<Rightarrow> (Inl e, b')
              | Inr unpacked \<Rightarrow>
                  (if length unpacked = 1 then (Inr (hd unpacked), b')
                   else (Inr (PTuple unpacked), b'))))"

definition pack :: "string \<Rightarrow> pyval list \<Rightarrow> error + byte list" where
  "pack f data = struct_pack (CHR ''>'' # f) data"

section \<open>Varint codec\<close>

text \<open>
  \<^verbatim>\<open>-1 << (max_bits - 1)\<close> raises \<^verbatim>\<open>ValueError: negative shift count\<close> when
  \<^verbatim>\<open>max_bits < 1\<close>.
\<close>

definition varint_range :: "int \<Rightarrow> error + int \<times> int" where
  "varint_range max_bits =
     (if max_bits - 1 < 0 then Inl ValueError
      else Inr (- push_bit (nat (max_bits - 1)) 1, push_bit (nat (max_bits - 1)) 1))"

text \<open>The \<^verbatim>\<open>for i in range(10)\<close> loop of \<^verbatim>\<open>pack_varint\<close>; the first argument counts
  the iterations left.\<close>

fun pack_varint_loop :: "nat \<Rightarrow> int \<Rightarrow> byte list \<Rightarrow> error + byte list" where
  "pack_varint_loop 0 num out = Inr out"
| "pack_varint_loop (Suc k) num out =
     (let b = num AND 0x7F;
          num' = drop_bit 7 num
      in case struct_pack ''>B'' [PInt (b OR (if num' > 0 then 0x80 else 0))] of
           Inl e \<Rightarrow> Inl e
         | Inr bs \<Rightarrow>
             (let out' = out @ bs
              in if num' = 0 then Inr out' else pack_varint_loop k num' out'))"

text \<open>
  In \<^verbatim>\<open>num += 1 + 1 << 32\<close> the sum binds tighter than the shift: the right-hand
  side is \<^verbatim>\<open>(1 + 1) << 32\<close>.
\<close>

definition pack_varint :: "int \<Rightarrow> int \<Rightarrow> error + byte list" where
  "pack_varint num max_bits =
     (case varint_range max_bits of
        Inl e \<Rightarrow> Inl e
      | Inr (num_min, num_max) \<Rightarrow>
          if \<not> (num_min \<le> num \<and> num < num_max) then Inl ValueError
          else
            (let num1 = (if num < 0 then num + push_bit 32 (1 + 1) else num)
             in pack_varint_loop 10 num1 []))"

text \<open>The \<^verbatim>\<open>for i in range(10)\<close> loop of \<^verbatim>\<open>unpack_varint\<close>: iterations left, the
  index \<open>i\<close>, the accumulator and the buffer.\<close>

fun unpack_varint_loop :: "nat \<Rightarrow> nat \<Rightarrow> int \<Rightarrow> Buffer \<Rightarrow> (error + int) \<times> Buffer" where
  "unpack_varint_loop 0 i num b = (Inr num, b)"
| "unpack_varint_loop (Suc k) i num b =
     (case unpack ''>B'' b of
        (Inl e, b') \<Rightarrow> (Inl e, b')
      | (Inr v, b') \<Rightarrow>
          (case as_int v of
             Inl e \<Rightarrow> (Inl e, b')
           | Inr x \<Rightarrow>
               (let num' = num OR push_bit (7 * i) (x AND 0x7F)
                in if x AND 0x80 = 0 then (Inr num', b')
                   else unpack_varint_loop k (Suc i) num' b')))"

definition unpack_varint :: "int \<Rightarrow> Buffer \<Rightarrow> (error + int) \<times> Buffer" where
  "unpack_varint max_bits b =
     (case unpack_varint_loop 10 0 0 b of
        (Inl e, b') \<Rightarrow> (Inl e, b')
      | (Inr num, b') \<Rightarrow>
          (let num1 = (if num AND push_bit 31 1 \<noteq> 0 then num - push_bit 32 1 else num)
           in case varint_range max_bits of
                Inl e \<Rightarrow> (Inl e, b')
              | Inr (num_min, num_max) \<Rightarrow>
                  if \<not> (num_min \<le> num1 \<and> num1 < num_max) then (Inl ValueError, b')
                  else (Inr num1, b')))"

section \<open>Frame codec\<close>

text \<open>
  \<^verbatim>\<open>zlib.compress\<close> and \<^verbatim>\<open>zlib.decompress\<close> belong to Python's standard library,
  not to this repository: the frame functions take them as parameters. The buffers
  \<^verbatim>\<open>from_bytes\<close> creates are local, so an exception leaves no state behind.
\<close>

definition from_bytes ::
  "(byte list \<Rightarrow> error + byte list) \<Rightarrow> byte list \<Rightarrow> int \<Rightarrow> error + Buffer" where
  "from_bytes decompress data comp_thresh =
     (let b0 = new_Buffer data
      in case unpack_varint 32 b0 of
           (Inl e, b1) \<Rightarrow> Inl e
         | (Inr n, b1) \<Rightarrow>
             (let b2 = new_Buffer (fst (read (Some n) b1))
              in if comp_thresh \<ge> 0 then
                   (case unpack_varint 32 b2 of
                      (Inl e, b3) \<Rightarrow> Inl e
                    | (Inr uncomp_len, b3) \<Rightarrow>
                        if uncomp_len > 0 then
                          (case decompress (fst (read None b3)) of
                             Inl e \<Rightarrow> Inl e
                           | Inr payload \<Rightarrow> Inr (new_Buffer payload))
                        else Inr b3)
                 else Inr b2))"

definition to_bytes :: "(byte list \<Rightarrow> byte list) \<Rightarrow> int \<Rightarrow> Buffer \<Rightarrow> error + byte list" where
  "to_bytes compress comp_thresh b =
     (let inner =
        (if comp_thresh \<ge> 0 then
           (if int (length (buf b)) \<ge> comp_thresh then
              (case pack_varint (int (length (buf b))) 32 of
                 Inl e \<Rightarrow> Inl e
               | Inr p \<Rightarrow> Inr (p @ compress (buf b)))
            else
              (case pack_varint 0 32 of Inl e \<Rightarrow> Inl e | Inr p \<Rightarrow> Inr (p @ buf b)))
         else Inr (buf b))
      in case inner of
           Inl e \<Rightarrow> Inl e
         | Inr data \<Rightarrow>
             (case pack_varint (int (length data)) 32 of
                Inl e \<Rightarrow> Inl e
              | Inr p \<Rightarrow> Inr (p @ data)))"

section \<open>Strings\<close>

text \<open>
  A Python \<^verbatim>\<open>str\<close> is a sequence of code points below \<open>0x110000\<close>.
  \<^verbatim>\<open>str.encode('utf-8')\<close> raises \<^verbatim>\<open>UnicodeEncodeError\<close> on a surrogate;
  \<^verbatim>\<open>bytes.decode('utf-8')\<close> raises \<^verbatim>\<open>UnicodeDecodeError\<close> on anything but
  well-formed UTF-8.
\<close>

type_synonym pystr = "nat list"

definition utf8_char :: "nat \<Rightarrow> error + byte list" where
  "utf8_char c =
     (if c < 0x80 then Inr [of_nat c]
      else if c < 0x800 then Inr [of_nat (0xC0 + c div 64), of_nat (0x80 + c mod 64)]
      else if c < 0x10000 then
        (if 0xD800 \<le> c \<and> c \<le> 0xDFFF then Inl UnicodeError
         else Inr [of_nat (0xE0 + c div 4096), of_nat (0x80 + c div 64 mod 64),
                   of_nat (0x80 + c mod 64)])
      else if c < 0x110000 then
        Inr [of_nat (0xF0 + c div 262144), of_nat (0x80 + c div 4096 mod 64),
             of_nat (0x80 + c div 64 mod 64), of_nat (0x80 + c mod 64)]
      else Inl UnicodeError)"

fun utf8_encode :: "pystr \<Rightarrow> error + byte list" where
  "utf8_encode [] = Inr []"
| "utf8_encode (c # cs) =
     (case utf8_char c of
        Inl e \<Rightarrow> Inl e
      | Inr bs \<Rightarrow> (case utf8_encode cs of Inl e \<Rightarrow> Inl e | Inr rest \<Rightarrow> Inr (bs @ rest)))"

definition cont_byte :: "byte \<Rightarrow> bool" where
  "cont_byte b = (0x80 \<le> b \<and> b \<le> 0xBF)"

definition cons_ok :: "nat \<Rightarrow> error + nat list \<Rightarrow> error + nat list" where
  "cons_ok c r = (case r of Inl e \<Rightarrow> Inl e | Inr cs \<Rightarrow> Inr (c # cs))"

fun utf8_decode :: "byte list \<Rightarrow> error + pystr" where
  "utf8_decode [] = Inr []"
| "utf8_decode [b0] = (if b0 < 0x80 then Inr [unat b0] else Inl UnicodeError)"
| "utf8_decode [b0, b1] =
     (if b0 < 0x80 then cons_ok (unat b0) (utf8_decode [b1])
      else if 0xC2 \<le> b0 \<and> b0 \<le> 0xDF \<and> cont_byte b1
        then Inr [(unat b0 - 0xC0) * 64 + (unat b1 - 0x80)]
      else Inl UnicodeError)"
| "utf8_decode [b0, b1, b2] =
     (if b0 < 0x80 then cons_ok (unat b0) (utf8_decode [b1, b2])
      else if 0xC2 \<le> b0 \<and> b0 \<le> 0xDF \<and> cont_byte b1
        then cons_ok ((unat b0 - 0xC0) * 64 + (unat b1 - 0x80)) (utf8_decode [b2])
      else if 0xE0 \<le> b0 \<and> b0 \<le> 0xEF \<and> cont_byte b1 \<and> cont_byte b2
              \<and> (if b0 = 0xE0 then 0xA0 \<le> b1 else True) \<and> (if b0 = 0xED then b1 \<le> 0x9F else True)
        then Inr [(unat b0 - 0xE0) * 4096 + (unat b1 - 0x80) * 64 + (unat b2 - 0x80)]
      else Inl UnicodeError)"
| "utf8_decode (b0 # b1 # b2 # b3 # bs) =
     (if b0 < 0x80 then cons_ok (unat b0) (utf8_decode (b1 # b2 # b3 # bs))
      else if 0xC2 \<le> b0 \<and> b0 \<le> 0xDF \<and> cont_byte b1
        then cons_ok ((unat b0 - 0xC0) * 64 + (unat b1 - 0x80)) (utf8_decode (b2 # b3 # bs))
      else if 0xE0 \<le> b0 \<and> b0 \<le> 0xEF \<and> cont_byte b1 \<and> cont_byte b2
              \<and> (if b0 = 0xE0 then 0xA0 \<le> b1 else True) \<and> (if b0 = 0xED then b1 \<le> 0x9F else True)
        then cons_ok ((unat b0 - 0xE0) * 4096 + (unat b1 - 0x80) * 64 + (unat b2 - 0x80))
               (utf8_decode (b3 # bs))
      else if 0xF0 \<le> b0 \<and> b0 \<le> 0xF4 \<and> cont_byte b1 \<and> cont_byte b2 \<and> cont_byte b3
              \<and> (if b0 = 0xF0 then 0x90 \<le> b1 else True) \<and> (if b0 = 0xF4 then b1 \<le> 0x8F else True)
        then cons_ok ((unat b0 - 0xF0) * 262144 + (unat b1 - 0x80) * 4096
                        + (unat b2 - 0x80) * 64 + (unat b3 - 0x80))
               (utf8_decode bs)
      else Inl UnicodeError)"

definition pack_string :: "pystr \<Rightarrow> error + byte list" where
  "pack_string text =
     (case utf8_encode text of
        Inl e \<Rightarrow> Inl e
      | Inr encoded \<Rightarrow>
          (case pack_varint (int (length encoded)) 16 of
             Inl e \<Rightarrow> Inl e
           | Inr p \<Rightarrow> Inr (p @ encoded)))"

definition unpack_string :: "Buffer \<Rightarrow> (error + pystr) \<times> Buffer" where
  "unpack_string b =
     (case unpack_varint 16 b of
        (Inl e, b') \<Rightarrow> (Inl e, b')
      | (Inr len, b') \<Rightarrow>
          (let (data, b'') = read (Some len) b'
           in (utf8_decode data, b'')))"

section \<open>Positions, booleans and the slot stubs\<close>

definition to_twos_complement :: "int \<Rightarrow> nat \<Rightarrow> int" where
  "to_twos_complement num bits = (if num < 0 then num + push_bit bits 1 else num)"

definition pack_pos :: "int \<Rightarrow> int \<Rightarrow> int \<Rightarrow> error + byte list" where
  "pack_pos x y z =
     struct_pack ''>Q''
       [PInt (sum_list [push_bit 38 (to_twos_complement x 26),
                        push_bit 26 (to_twos_complement y 12),
                        to_twos_complement z 26])]"

definition from_twos_complement :: "int \<Rightarrow> nat \<Rightarrow> int" where
  "from_twos_complement num bits =
     (if num AND push_bit (bits - 1) 1 \<noteq> 0 then num - push_bit bits 1 else num)"

definition unpack_pos :: "Buffer \<Rightarrow> (error + int \<times> int \<times> int) \<times> Buffer" where
  "unpack_pos b =
     (case unpack ''>Q'' b of
        (Inl e, b') \<Rightarrow> (Inl e, b')
      | (Inr v, b') \<Rightarrow>
          (case as_int v of
             Inl e \<Rightarrow> (Inl e, b')
           | Inr data \<Rightarrow>
               (Inr (from_twos_complement (drop_bit 38 data) 26,
                     from_twos_complement (drop_bit 26 data AND 0xFFF) 12,
                     from_twos_complement (data AND 0x3FFFFFF) 26), b')))"

definition pack_bool :: "pyval \<Rightarrow> error + byte list" where
  "pack_bool boolean = struct_pack ''>?'' [boolean]"

definition unpack_bool :: "Buffer \<Rightarrow> (error + pyval) \<times> Buffer" where
  "unpack_bool b = unpack ''>?'' b"

text \<open>Both slot methods have the body \<^verbatim>\<open>pass\<close>: they return \<^verbatim>\<open>None\<close>.\<close>

definition pack_slot :: pyval where
  "pack_slot = PNone"

definition unpack_slot :: "Buffer \<Rightarrow> pyval \<times> Buffer" where
  "unpack_slot b = (PNone, b)"

section \<open>The other typed readers\<close>

text \<open>Python's \<^verbatim>\<open>f * length\<close> on a string: the empty string when \<^verbatim>\<open>length\<close> is negative.\<close>

definition str_repeat :: "string \<Rightarrow> int \<Rightarrow> string" where
  "str_repeat f n = concat (replicate (nat n) f)"

text \<open>
  \<^verbatim>\<open>unpack_array\<close> calls \<^verbatim>\<open>struct\<close> itself, with one \<^verbatim>\<open>'>'\<close>; the length it
  passes to \<^verbatim>\<open>read\<close> is the product of the item size and \<^verbatim>\<open>length\<close>, of either sign.
\<close>

definition unpack_array :: "string \<Rightarrow> int \<Rightarrow> Buffer \<Rightarrow> (error + pyval list) \<times> Buffer" where
  "unpack_array f len b =
     (case calcsize (CHR ''>'' # f) of
        Inl e \<Rightarrow> (Inl e, b)
      | Inr n \<Rightarrow>
          (let (data, b') = read (Some (int n * len)) b
           in (struct_unpack (CHR ''>'' # str_repeat f len) data, b')))"

text \<open>\<^verbatim>\<open>json.loads\<close> belongs to the standard library and is a parameter.\<close>

definition unpack_json :: "(pystr \<Rightarrow> error + 'j) \<Rightarrow> Buffer \<Rightarrow> (error + 'j) \<times> Buffer" where
  "unpack_json loads b =
     (case unpack_string b of
        (Inl e, b') \<Rightarrow> (Inl e, b')
      | (Inr text, b') \<Rightarrow> (loads text, b'))"

text \<open>A UUID is its sixteen bytes; \<^verbatim>\<open>uuid.UUID(bytes=...)\<close> raises \<^verbatim>\<open>ValueError\<close> on
  any other length.\<close>

definition unpack_uuid :: "Buffer \<Rightarrow> (error + byte list) \<times> Buffer" where
  "unpack_uuid b =
     (let (data, b') = read (Some 16) b
      in (if length data = 16 then Inr data else Inl ValueError, b'))"

text \<open>
  The module neither defines nor imports \<^verbatim>\<open>Message\<close> and \<^verbatim>\<open>DIRECTIONS\<close> (the
  annotations that mention \<^verbatim>\<open>Message\<close> are never evaluated). In \<^verbatim>\<open>unpack_msg\<close> and in
  \<^verbatim>\<open>unpack_direction\<close> the name is looked up before anything reads from the Buffer,
  and the lookup raises \<^verbatim>\<open>NameError\<close>.
\<close>

definition unpack_msg :: "Buffer \<Rightarrow> (error + pyval) \<times> Buffer" where
  "unpack_msg b = (Inl NameError, b)"

definition unpack_direction :: "Buffer \<Rightarrow> (error + pystr) \<times> Buffer" where
  "unpack_direction b = (Inl NameError, b)"

definition unpack_rotation :: "Buffer \<Rightarrow> (error + pyval) \<times> Buffer" where
  "unpack_rotation b = unpack ''fff'' b"

section \<open>Sequences of operations on one Buffer\<close>

text \<open>
  The instance methods that touch the state of a Buffer, and the state they leave,
  whether they return or raise. The \<^verbatim>\<open>pack_*\<close> methods are class methods and touch
  no Buffer. \<^verbatim>\<open>unpack_json\<close> leaves the state that its call of \<^verbatim>\<open>unpack_string\<close>
  leaves, whatever \<^verbatim>\<open>json.loads\<close> does (lemma \<open>unpack_json_state\<close> below).
\<close>

datatype op = Write "byte list" | Read "int option" | Reset | Unpack string
  | UnpackArray string int | UnpackBool | UnpackVarint int | UnpackString | UnpackJson
  | UnpackUuid | UnpackMsg | UnpackPos | UnpackSlot | UnpackDirection | UnpackRotation

fun apply_op :: "Buffer \<Rightarrow> op \<Rightarrow> Buffer" where
  "apply_op b (Write data) = write_buf data b"
| "apply_op b (Read len) = snd (read len b)"
| "apply_op b Reset = reset b"
| "apply_op b (Unpack f) = snd (unpack f b)"
| "apply_op b (UnpackArray f len) = snd (unpack_array f len b)"
| "apply_op b UnpackBool = snd (unpack_bool b)"
| "apply_op b (UnpackVarint max_bits) = snd (unpack_varint max_bits b)"
| "apply_op b UnpackString = snd (unpack_string b)"
| "apply_op b UnpackJson = snd (unpack_string b)"
| "apply_op b UnpackUuid = snd (unpack_uuid b)"
| "apply_op b UnpackMsg = snd (unpack_msg b)"
| "apply_op b UnpackPos = snd (unpack_pos b)"
| "apply_op b UnpackSlot = snd (unpack_slot b)"
| "apply_op b UnpackDirection = snd (unpack_direction b)"
| "apply_op b UnpackRotation = snd (unpack_rotation b)"

definition run_ops :: "op list \<Rightarrow> Buffer \<Rightarrow> Buffer" where
  "run_ops ops b = foldl apply_op b ops"

section \<open>Reference notions used to state the properties\<close>

text \<open>
  The unsigned variable-length encoding as the specification words it: seven payload
  bits per byte, least significant group first, the high bit set on every byte except
  the last. It is compared below with the loop of \<^verbatim>\<open>pack_varint\<close>.
\<close>

fun uleb128 :: "nat \<Rightarrow> byte list" where
  "uleb128 n = (if n < 128 then [of_nat n] else of_nat (n mod 128 + 128) # uleb128 (n div 128))"

text \<open>The two operations that take a length from their caller are given one that is not
  negative.\<close>

fun nonneg_length :: "op \<Rightarrow> bool" where
  "nonneg_length (Read (Some n)) = (0 \<le> n)"
| "nonneg_length (UnpackArray f n) = (0 \<le> n)"
| "nonneg_length other = True"


section \<open>What \<^verbatim>\<open>struct\<close> does on the formats of the codec\<close>

declare uleb128.simps [simp del]

text \<open>
  \<^verbatim>\<open>unpack\<close> prepends \<^verbatim>\<open>'>'\<close> to its argument. \<^verbatim>\<open>unpack_varint\<close>,
  \<^verbatim>\<open>unpack_pos\<close> and \<^verbatim>\<open>unpack_bool\<close> pass a format that already starts with
  \<^verbatim>\<open>'>'\<close>, so \<^verbatim>\<open>struct.unpack\<close> receives \<^verbatim>\<open>'>>B'\<close>, \<^verbatim>\<open>'>>Q'\<close> or \<^verbatim>\<open>'>>?'\<close> and
  raises, after \<^verbatim>\<open>read\<close> has advanced the cursor.
\<close>

lemmas struct_defs = calcsize_def fmt_codes_def order_chars_def native_mode_def is_space_def
  is_digit_def digit_val_def add_item_def std_size_def native_size_def align_def ssize_max_def

text \<open>Sizes and results on some formats, as \<^verbatim>\<open>struct\<close> gives them.\<close>

lemma calcsize_examples:
  "calcsize ''fff'' = Inr 12"
  "calcsize ''BB'' = Inr 2"
  "calcsize ''BQ'' = Inr 16"
  "calcsize ''>BQ'' = Inr 9"
  "calcsize ''B3sQ'' = Inr 16"
  "calcsize ''3 B'' = Inl StructError"
  "calcsize ''>n'' = Inl StructError"
  "calcsize [CHR 0x09, CHR ''B''] = Inr 1"
  by (simp_all add: struct_defs)

lemma unpack_examples:
  "unpack [CHR 0x09, CHR ''B''] (new_Buffer [5]) = (Inr (PInt 5), \<lparr>buf = [5], pos = 1\<rparr>)"
  "unpack ''BB'' (new_Buffer [1, 2]) = (Inr (PTuple [PInt 1, PInt 2]), \<lparr>buf = [1, 2], pos = 2\<rparr>)"
  "unpack ''fff'' (new_Buffer []) = (Inl StructError, \<lparr>buf = [], pos = 12\<rparr>)"
  "unpack ''>B'' (new_Buffer [5]) = (Inl StructError, \<lparr>buf = [5], pos = 1\<rparr>)"
  by (simp_all add: unpack_def struct_unpack_def struct_defs modelled_values_def value_codes_def
      big_endian_def new_Buffer_def read_def py_slice_def slice_index_def decode_field_def
      field_size_def be_int_def)

lemma calcsize_B: "calcsize ''>B'' = Inr 1"
  by (simp add: struct_defs)

lemma calcsize_Q: "calcsize ''>Q'' = Inr 8"
  by (simp add: struct_defs)

lemma calcsize_bool: "calcsize ''>?'' = Inr 1"
  by (simp add: struct_defs)

lemma struct_unpack_doubled_mark:
  "struct_unpack ''>>B'' data = Inl StructError"
  "struct_unpack ''>>Q'' data = Inl StructError"
  "struct_unpack ''>>?'' data = Inl StructError"
  by (simp_all add: struct_unpack_def struct_defs)

lemma unpack_doubled_B: "unpack ''>B'' b = (Inl StructError, b\<lparr>pos := pos b + 1\<rparr>)"
  by (simp add: unpack_def calcsize_B read_def struct_unpack_doubled_mark)

lemma unpack_doubled_Q: "unpack ''>Q'' b = (Inl StructError, b\<lparr>pos := pos b + 8\<rparr>)"
  by (simp add: unpack_def calcsize_Q read_def struct_unpack_doubled_mark)

lemma unpack_doubled_bool: "unpack ''>?'' b = (Inl StructError, b\<lparr>pos := pos b + 1\<rparr>)"
  by (simp add: unpack_def calcsize_bool read_def struct_unpack_doubled_mark)

lemma unpack_varint_raises:
  "unpack_varint max_bits b = (Inl StructError, b\<lparr>pos := pos b + 1\<rparr>)"
  by (simp add: unpack_varint_def numeral_eq_Suc unpack_doubled_B del: One_nat_def)

lemma unpack_pos_raises: "unpack_pos b = (Inl StructError, b\<lparr>pos := pos b + 8\<rparr>)"
  by (simp add: unpack_pos_def unpack_doubled_Q)

lemma unpack_string_raises: "unpack_string b = (Inl StructError, b\<lparr>pos := pos b + 1\<rparr>)"
  by (simp add: unpack_string_def unpack_varint_raises)

lemma from_bytes_raises: "from_bytes decompress data comp_thresh = Inl StructError"
  by (simp add: from_bytes_def unpack_varint_raises)

lemma struct_pack_B:
  "0 \<le> x \<Longrightarrow> x < 256 \<Longrightarrow> struct_pack ''>B'' [PInt x] = Inr [word_of_int x]"
  by (simp add: struct_pack_def calcsize_B modelled_values_def value_codes_def is_space_def
      fmt_codes_def order_chars_def big_endian_def encode_field_def field_size_def as_int_def
      be_bytes_def)

lemma and_127: "(n::int) AND 0x7F = n mod 128"
proof -
  have "n AND mask 7 = take_bit 7 n" by (simp add: take_bit_eq_mask)
  then show ?thesis by (simp add: take_bit_eq_mod mask_eq_exp_minus_1)
qed

lemma or_128: "0 \<le> (m::int) \<Longrightarrow> m < 128 \<Longrightarrow> m OR 0x80 = m + 128"
proof -
  assume a: "0 \<le> m" "m < 128"
  have t: "take_bit 7 m = m" using a by (simp add: take_bit_int_eq_self)
  have "take_bit j m AND push_bit j 1 = 0" for j :: nat
    by (rule bit_eqI) (auto simp: bit_simps)
  from this [of 7] have "m AND 128 = 0" using t by simp
  then show ?thesis by (simp add: disjunctive_add_eq_or)
qed

lemma drop_bit_7: "drop_bit 7 (n::int) = n div 128"
  by (simp add: drop_bit_eq_div)

section \<open>The loop of \<^verbatim>\<open>pack_varint\<close>\<close>

lemma pack_varint_loop_step:
  "pack_varint_loop (Suc k) n out =
     (if n div 128 > 0 then
        (if k = 0 then Inr (out @ [word_of_int (n mod 128 + 128)])
         else pack_varint_loop k (n div 128) (out @ [word_of_int (n mod 128 + 128)]))
      else if n div 128 = 0 then Inr (out @ [word_of_int (n mod 128)])
      else pack_varint_loop k (n div 128) (out @ [word_of_int (n mod 128)]))"
proof -
  have m: "0 \<le> n mod 128" "n mod 128 < 128" by simp_all
  have p0: "struct_pack ''>B'' [PInt (n mod 128)] = Inr [word_of_int (n mod 128)]"
    using m by (intro struct_pack_B) simp_all
  have p1: "struct_pack ''>B'' [PInt (n mod 128 + 128)] = Inr [word_of_int (n mod 128 + 128)]"
    using m by (intro struct_pack_B) simp_all
  show ?thesis
    using m p0 p1 by (cases k) (simp_all add: and_127 drop_bit_7 or_128 Let_def)
qed

lemma pack_varint_loop_total: "\<exists>bs. pack_varint_loop k n out = Inr bs"
proof (induction k arbitrary: n out)
  case 0
  show ?case by simp
next
  case (Suc k)
  show ?case
    unfolding pack_varint_loop_step using Suc.IH by (auto simp del: pack_varint_loop.simps)
qed

lemma pack_varint_loop_uleb128:
  "0 \<le> n \<Longrightarrow> n < 2 ^ (7 * Suc k) \<Longrightarrow> pack_varint_loop (Suc k) n out = Inr (out @ uleb128 (nat n))"
proof (induction k arbitrary: n out)
  case 0
  then have "n div 128 = 0" by simp
  moreover have "nat n < 128" using 0 by simp
  ultimately show ?case
    unfolding pack_varint_loop_step by (simp add: uleb128.simps [of "nat n"] del: pack_varint_loop.simps)
next
  case (Suc k)
  show ?case
  proof (cases "n < 128")
    case True
    then have "n div 128 = 0" using Suc.prems by simp
    moreover have "nat n < 128" using True by simp
    ultimately show ?thesis
      unfolding pack_varint_loop_step [of "Suc k"]
      by (simp add: uleb128.simps [of "nat n"] True del: pack_varint_loop.simps)
  next
    case False
    then have d: "0 < n div 128" by simp
    define X :: int where "X = 2 ^ (7 * Suc k)"
    have "n < 128 * X"
      using Suc.prems(2) by (simp add: X_def power_add)
    then have "n div 128 < X" by arith
    then have b: "n div 128 < 2 ^ (7 * Suc k)" by (simp only: X_def)
    have nn: "0 \<le> n div 128" using d by simp
    have ih: "pack_varint_loop (Suc k) (n div 128) (out @ [word_of_int (n mod 128 + 128)])
        = Inr ((out @ [word_of_int (n mod 128 + 128)]) @ uleb128 (nat (n div 128)))"
      by (rule Suc.IH [OF nn b])
    have u: "uleb128 (nat n) = of_nat (nat n mod 128 + 128) # uleb128 (nat n div 128)"
      using False by (simp add: uleb128.simps [of "nat n"])
    have e1: "nat (n div 128) = nat n div 128" using Suc.prems by (simp add: nat_div_distrib)
    have "int (nat n mod 128 + 128) = n mod 128 + 128"
      using Suc.prems(1) by (simp add: zmod_int)
    then have e2: "(word_of_int (n mod 128 + 128) :: byte) = of_nat (nat n mod 128 + 128)"
      by (metis of_int_of_nat_eq)
    show ?thesis
      unfolding pack_varint_loop_step [of "Suc k"] using d ih u e1 e2
      by (simp del: pack_varint_loop.simps)
  qed
qed

lemma varint_range_pos:
  "1 \<le> mb \<Longrightarrow> varint_range mb = Inr (- (2 ^ nat (mb - 1)), 2 ^ nat (mb - 1))"
  by (simp add: varint_range_def push_bit_eq_mult)

lemma pack_varint_nonpositive_bits: "mb \<le> 0 \<Longrightarrow> pack_varint v mb = Inl ValueError"
  by (simp add: pack_varint_def varint_range_def)

lemma pack_varint_in_range:
  assumes "1 \<le> mb" "- (2 ^ nat (mb - 1)) \<le> v" "v < 2 ^ nat (mb - 1)"
  shows "pack_varint v mb = pack_varint_loop 10 (if v < 0 then v + 2 ^ 33 else v) []"
  using assms by (simp add: pack_varint_def varint_range_pos Let_def del: pack_varint_loop.simps)

lemma pack_varint_out_of_range:
  assumes "1 \<le> mb" "v < - (2 ^ nat (mb - 1)) \<or> 2 ^ nat (mb - 1) \<le> v"
  shows "pack_varint v mb = Inl ValueError"
  using assms by (auto simp add: pack_varint_def varint_range_pos simp del: pack_varint_loop.simps)

lemma pack_varint_unsigned:
  assumes "1 \<le> mb" "0 \<le> v" "v < 2 ^ nat (mb - 1)" "v < 2 ^ 70"
  shows "pack_varint v mb = Inr (uleb128 (nat v))"
proof -
  have "pack_varint v mb = pack_varint_loop (Suc 9) v []"
    using assms by (simp add: pack_varint_in_range del: pack_varint_loop.simps)
  also have "\<dots> = Inr ([] @ uleb128 (nat v))"
    using assms by (intro pack_varint_loop_uleb128) simp_all
  finally show ?thesis by simp
qed

section \<open>Properties of the varint encoder\<close>

text \<open>
  C6. For a bit width \<open>max_bits \<ge> 1\<close>, \<^verbatim>\<open>pack_varint(value, max_bits)\<close> raises the range
  error (\<^verbatim>\<open>ValueError\<close>) exactly when \<open>value\<close> is outside
  \<open>[-2^(max_bits-1), 2^(max_bits-1))\<close>, and returns bytes exactly when it is inside;
  on failure the result is the error alone, with no bytes. \<^verbatim>\<open>pack_varint(2^31)\<close> and
  \<^verbatim>\<open>pack_varint(-2^31 - 1)\<close> both fail.
\<close>

theorem pack_varint_range_rejection:
  assumes "1 \<le> mb"
  shows "(pack_varint v mb = Inl ValueError)
           = (v < - (2 ^ nat (mb - 1)) \<or> 2 ^ nat (mb - 1) \<le> v)
       \<and> (\<exists>bs. pack_varint v mb = Inr bs)
           = (- (2 ^ nat (mb - 1)) \<le> v \<and> v < 2 ^ nat (mb - 1))
       \<and> pack_varint (2 ^ 31) 32 = Inl ValueError
       \<and> pack_varint (- (2 ^ 31) - 1) 32 = Inl ValueError"
proof (cases "- (2 ^ nat (mb - 1)) \<le> v \<and> v < 2 ^ nat (mb - 1)")
  case True
  then have "pack_varint v mb = pack_varint_loop 10 (if v < 0 then v + 2 ^ 33 else v) []"
    using assms by (intro pack_varint_in_range) simp_all
  moreover obtain bs where "pack_varint_loop 10 (if v < 0 then v + 2 ^ 33 else v) [] = Inr bs"
    using pack_varint_loop_total by blast
  ultimately have "pack_varint v mb = Inr bs" by simp
  moreover have "pack_varint (2 ^ 31) 32 = Inl ValueError"
    by (rule pack_varint_out_of_range) simp_all
  moreover have "pack_varint (- (2 ^ 31) - 1) 32 = Inl ValueError"
    by (rule pack_varint_out_of_range) simp_all
  ultimately show ?thesis using True by auto
next
  case False
  then have "pack_varint v mb = Inl ValueError"
    using assms by (intro pack_varint_out_of_range) auto
  moreover have "pack_varint (2 ^ 31) 32 = Inl ValueError"
    by (rule pack_varint_out_of_range) simp_all
  moreover have "pack_varint (- (2 ^ 31) - 1) 32 = Inl ValueError"
    by (rule pack_varint_out_of_range) simp_all
  ultimately show ?thesis using False by auto
qed

theorem pack_varint_range_rejection_witness:
  "(1::int) \<le> 32 \<and> pack_varint (2 ^ 31) 32 = Inl ValueError
     \<and> (\<exists>bs. pack_varint 5 32 = Inr bs)"
  using pack_varint_range_rejection [of 32 "2 ^ 31"] pack_varint_range_rejection [of 32 5]
  by simp

text \<open>
  C2, as amended. For every negative \<open>v\<close> with \<open>-2^31 \<le> v\<close>, the bytes that
  \<^verbatim>\<open>pack_varint(v)\<close> emits are the unsigned encoding of \<open>v + 2^33\<close>: the folding
  constant \<^verbatim>\<open>1 + 1 << 32\<close> is \<open>(1 + 1) * 2^32\<close>.
\<close>

theorem pack_varint_negative_fold:
  assumes "- (2 ^ 31) \<le> v" "v < 0"
  shows "pack_varint v 32 = Inr (uleb128 (nat (v + 2 ^ 33)))"
proof -
  have "pack_varint v 32 = pack_varint_loop (Suc 9) (v + 2 ^ 33) []"
    using assms by (simp add: pack_varint_in_range del: pack_varint_loop.simps)
  also have "\<dots> = Inr ([] @ uleb128 (nat (v + 2 ^ 33)))"
    using assms by (intro pack_varint_loop_uleb128) simp_all
  finally show ?thesis by simp
qed

theorem pack_varint_negative_fold_witness:
  "- (2 ^ 31) \<le> (-1::int) \<and> (-1::int) < 0
     \<and> pack_varint (-1) 32 = Inr [255, 255, 255, 255, 31]"
  using pack_varint_negative_fold [of "-1"] by (simp add: uleb128.simps)

text \<open>
  C2 as stated fails: the bytes for \<open>v = -1\<close> are not those of the unsigned value
  \<open>-1 + (1 + 2^32)\<close>.
\<close>

theorem pack_varint_fold_counterexample:
  "pack_varint (-1) 32 \<noteq> Inr (uleb128 (nat (-1 + (1 + 2 ^ 32))))"
proof -
  have "pack_varint (-1) 32 = Inr (uleb128 (nat (-1 + 2 ^ 33)))"
    by (rule pack_varint_in_range [THEN trans]) (simp_all add: pack_varint_loop_uleb128 [of _ 9, simplified] del: pack_varint_loop.simps)
  then show ?thesis by (simp add: uleb128.simps)
qed

section \<open>The unbounded read and the slot stubs\<close>

text \<open>
  C7. Whatever the state of the Buffer, \<^verbatim>\<open>read()\<close> without a length returns the
  slice of the owned bytes from the cursor to the end (counted from the end when the
  cursor is negative), leaves the bytes as they are, and moves the cursor forward by
  the full length of the byte sequence; whenever the cursor was past the start of a
  buffer that is not empty, that advance differs from the number of bytes returned.
\<close>

theorem read_unbounded:
  "fst (read None b)
       = (if 0 \<le> pos b then drop (nat (pos b)) (buf b)
          else drop (length (buf b) - nat (- pos b)) (buf b))
     \<and> buf (snd (read None b)) = buf b
     \<and> pos (snd (read None b)) = pos b + int (length (buf b))
     \<and> (0 < pos b \<and> buf b \<noteq> []
          \<longrightarrow> pos (snd (read None b)) \<noteq> pos b + int (length (fst (read None b))))"
proof -
  have neg: "nat (p + int n) = n - nat (- p)" if "p < 0" for p :: int and n :: nat
    using that by arith
  show ?thesis
    by (auto simp add: read_def py_slice_from_def slice_index_def min_def max_def neg)
qed

theorem read_unbounded_witness:
  "fst (read None \<lparr>buf = [1, 2, 3], pos = 1\<rparr>) = [2, 3]
     \<and> pos (snd (read None \<lparr>buf = [1, 2, 3], pos = 1\<rparr>)) = 4
     \<and> pos (snd (read None \<lparr>buf = [1, 2, 3], pos = 1\<rparr>))
         \<noteq> 1 + int (length (fst (read None \<lparr>buf = [1, 2, 3], pos = 1\<rparr>)))"
  using read_unbounded [of "\<lparr>buf = [1, 2, 3], pos = 1\<rparr>"] by simp

text \<open>
  C10. \<^verbatim>\<open>pack_slot\<close> returns \<^verbatim>\<open>None\<close>, so it produces no bytes; \<^verbatim>\<open>unpack_slot\<close>
  returns \<^verbatim>\<open>None\<close> and leaves the byte sequence and the cursor of the Buffer as
  they were. Neither can fail.
\<close>

theorem slot_stubs:
  "pack_slot = PNone \<and> unpack_slot b = (PNone, b) \<and> run_ops [UnpackSlot] b = b"
  by (simp add: pack_slot_def unpack_slot_def run_ops_def)

section \<open>The decoders behind the doubled byte-order mark\<close>

text \<open>
  C1. The round trip of the spec, at \<open>v = 0\<close>: \<^verbatim>\<open>pack_varint(0)\<close> is the single
  byte \<open>00\<close>, and \<^verbatim>\<open>unpack_varint\<close> on a fresh Buffer over it raises
  \<^verbatim>\<open>struct.error\<close> where the claim has it return \<open>0\<close>.
\<close>

theorem varint_roundtrip_raises:
  "pack_varint 0 32 = Inr [0]
     \<and> fst (unpack_varint 32 (new_Buffer [0])) = Inl StructError"
proof -
  have "pack_varint 0 32 = Inr (uleb128 (nat 0))"
    by (rule pack_varint_unsigned) simp_all
  then show ?thesis by (simp add: uleb128.simps unpack_varint_raises)
qed

text \<open>
  C3. The frame round trip, on the payload \<open>01 02 03\<close> without compression:
  \<^verbatim>\<open>to_bytes\<close> gives \<open>03 01 02 03\<close> and \<^verbatim>\<open>from_bytes\<close> on that frame raises
  \<^verbatim>\<open>struct.error\<close> where the claim has it return a Buffer over the payload.
\<close>

theorem frame_roundtrip_raises:
  "to_bytes compress (-1) (new_Buffer [1, 2, 3]) = Inr [3, 1, 2, 3]
     \<and> from_bytes decompress [3, 1, 2, 3] (-1) = Inl StructError"
proof -
  have "pack_varint 3 32 = Inr (uleb128 (nat 3))"
    by (rule pack_varint_unsigned) simp_all
  then show ?thesis
    by (simp add: to_bytes_def new_Buffer_def uleb128.simps from_bytes_raises)
qed

text \<open>
  C8. \<^verbatim>\<open>from_bytes\<close> on the frame \<open>02 00 07\<close> (compression enabled, inner length 0,
  payload \<open>07\<close>) raises \<^verbatim>\<open>struct.error\<close> where the claim has it return a Buffer.
\<close>

theorem from_bytes_literal_frame_raises:
  "from_bytes decompress [2, 0, 7] 0 = Inl StructError"
  by (rule from_bytes_raises)

section \<open>Positions\<close>

text \<open>The arithmetic of the two nested helpers is inverse on every width \<open>b + 1\<close>.\<close>

lemma twos_complement_inverse:
  assumes "- (2 ^ b) \<le> v" "v < 2 ^ b"
  shows "from_twos_complement (to_twos_complement v (Suc b)) (Suc b) = v"
proof (cases "v < 0")
  case True
  define w where "w = v + 2 ^ Suc b"
  have w: "2 ^ b \<le> w" "w < 2 * 2 ^ b" using assms True by (simp_all add: w_def)
  then have "w div 2 ^ b = 1"
    by (intro int_div_pos_eq [where r = "w - 2 ^ b"]) simp_all
  then have "bit w b" by (simp add: bit_iff_odd)
  then have "w AND 2 ^ b \<noteq> 0" by (simp add: and_exp_eq_0_iff_not_bit)
  then show ?thesis
    using True by (simp add: from_twos_complement_def to_twos_complement_def w_def push_bit_eq_mult)
next
  case False
  then have "v div 2 ^ b = 0" using assms by simp
  then have "\<not> bit v b" by (simp add: bit_iff_odd)
  then have "v AND 2 ^ b = 0" by (simp add: and_exp_eq_0_iff_not_bit)
  then show ?thesis
    using False by (simp add: from_twos_complement_def to_twos_complement_def push_bit_eq_mult)
qed

lemma be_bytes_8:
  "be_bytes 8 v = [word_of_int (drop_bit 56 v), word_of_int (drop_bit 48 v),
     word_of_int (drop_bit 40 v), word_of_int (drop_bit 32 v), word_of_int (drop_bit 24 v),
     word_of_int (drop_bit 16 v), word_of_int (drop_bit 8 v), word_of_int v]"
  by (simp add: be_bytes_def upt_rec numeral_eq_Suc)

lemma struct_pack_Q:
  "0 \<le> v \<Longrightarrow> v < 2 ^ 64 \<Longrightarrow> struct_pack ''>Q'' [PInt v] = Inr (be_bytes 8 v)"
  by (simp add: struct_pack_def calcsize_Q modelled_values_def value_codes_def is_space_def
      fmt_codes_def order_chars_def big_endian_def encode_field_def field_size_def as_int_def)

text \<open>
  C5. The position round trip, at \<open>(x, y, z) = (-1000, 50, 1000)\<close>: \<^verbatim>\<open>pack_pos\<close>
  gives the eight bytes \<open>FF FF 06 00 C8 00 03 E8\<close>, and \<^verbatim>\<open>unpack_pos\<close> on a fresh
  Buffer over them raises \<^verbatim>\<open>struct.error\<close> where the claim has it return the triple.
\<close>

theorem pos_roundtrip_raises:
  "pack_pos (-1000) 50 1000 = Inr [255, 255, 6, 0, 200, 0, 3, 232]
     \<and> fst (unpack_pos (new_Buffer [255, 255, 6, 0, 200, 0, 3, 232])) = Inl StructError"
proof -
  have "pack_pos (-1000) 50 1000 = Inr (be_bytes 8 18446469199158051816)"
    by (simp add: pack_pos_def to_twos_complement_def struct_pack_Q)
  then show ?thesis
    by (simp add: be_bytes_8 drop_bit_eq_div unpack_pos_raises)
qed

section \<open>The cursor under sequences of operations\<close>

lemma unpack_json_state: "snd (unpack_json loads b) = snd (unpack_string b)"
  by (simp add: unpack_json_def split: prod.splits sum.splits)

lemma unpack_cursor_nonneg: "0 \<le> pos b \<Longrightarrow> 0 \<le> pos (snd (unpack f b))"
  by (auto simp add: unpack_def read_def Let_def split: sum.splits prod.splits)

lemma unpack_array_cursor_nonneg:
  "0 \<le> pos b \<Longrightarrow> 0 \<le> len \<Longrightarrow> 0 \<le> pos (snd (unpack_array f len b))"
  by (auto simp add: unpack_array_def read_def Let_def split: sum.splits prod.splits)

lemma apply_op_nonneg:
  "0 \<le> pos b \<Longrightarrow> nonneg_length op \<Longrightarrow> 0 \<le> pos (apply_op b op)"
proof (cases op)
  case (Read len)
  assume "0 \<le> pos b" "nonneg_length op"
  then show ?thesis using Read by (cases len) (simp_all add: read_def)
next
  case (Unpack f)
  assume "0 \<le> pos b"
  then show ?thesis using Unpack by (simp add: unpack_cursor_nonneg)
next
  case (UnpackArray f len)
  assume "0 \<le> pos b" "nonneg_length op"
  then show ?thesis using UnpackArray by (simp add: unpack_array_cursor_nonneg)
next
  case UnpackRotation
  assume "0 \<le> pos b"
  then show ?thesis using UnpackRotation by (simp add: unpack_rotation_def unpack_cursor_nonneg)
qed (simp_all add: write_buf_def reset_def unpack_bool_def unpack_doubled_bool
      unpack_varint_raises unpack_string_raises unpack_pos_raises unpack_slot_def
      unpack_uuid_def read_def unpack_msg_def unpack_direction_def)

lemma run_ops_nonneg:
  "0 \<le> pos b \<Longrightarrow> list_all nonneg_length ops \<Longrightarrow> 0 \<le> pos (run_ops ops b)"
  unfolding run_ops_def
  by (induction ops arbitrary: b) (simp_all add: apply_op_nonneg)

text \<open>
  C9, as amended. Starting from a freshly constructed Buffer, after any sequence of
  \<^verbatim>\<open>write\<close>, \<^verbatim>\<open>read\<close>, \<^verbatim>\<open>reset\<close> and the typed readers (\<^verbatim>\<open>unpack\<close>,
  \<^verbatim>\<open>unpack_array\<close>, \<^verbatim>\<open>unpack_bool\<close>, \<^verbatim>\<open>unpack_varint\<close>, \<^verbatim>\<open>unpack_string\<close>,
  \<^verbatim>\<open>unpack_json\<close>, \<^verbatim>\<open>unpack_uuid\<close>, \<^verbatim>\<open>unpack_msg\<close>, \<^verbatim>\<open>unpack_pos\<close>,
  \<^verbatim>\<open>unpack_slot\<close>, \<^verbatim>\<open>unpack_direction\<close>, \<^verbatim>\<open>unpack_rotation\<close>) in which every length
  given to \<^verbatim>\<open>read\<close> or \<^verbatim>\<open>unpack_array\<close> is not negative, the cursor is not negative.
  Nothing bounds it from above.
\<close>

theorem cursor_nonneg:
  "list_all nonneg_length ops \<Longrightarrow> 0 \<le> pos (run_ops ops (new_Buffer data))"
  by (rule run_ops_nonneg) (simp_all add: new_Buffer_def)

theorem cursor_nonneg_witness:
  "list_all nonneg_length
       [Write [1, 2], Read (Some 5), Reset, Read None, Unpack ''fff'', UnpackArray ''B'' 2,
        UnpackVarint 32, UnpackString, UnpackUuid]
     \<and> 0 \<le> pos (run_ops
          [Write [1, 2], Read (Some 5), Reset, Read None, Unpack ''fff'', UnpackArray ''B'' 2,
           UnpackVarint 32, UnpackString, UnpackUuid] (new_Buffer [7]))"
  using cursor_nonneg [of "[Write [1, 2], Read (Some 5), Reset, Read None, Unpack ''fff'',
    UnpackArray ''B'' 2, UnpackVarint 32, UnpackString, UnpackUuid]" "[7]"]
  by simp

text \<open>
  C9 as stated fails on both sides: one \<^verbatim>\<open>read(1)\<close> on a fresh empty Buffer leaves
  the cursor at 1, past the end of the zero bytes owned; one \<^verbatim>\<open>read(-1)\<close>, or one
  \<^verbatim>\<open>unpack_array('B', -1)\<close>, leaves it at -1.
\<close>

theorem cursor_bounds_counterexample:
  "\<not> pos (run_ops [Read (Some 1)] (new_Buffer []))
       \<le> int (length (buf (run_ops [Read (Some 1)] (new_Buffer []))))
     \<and> \<not> 0 \<le> pos (run_ops [Read (Some (-1))] (new_Buffer []))
     \<and> \<not> 0 \<le> pos (run_ops [UnpackArray ''B'' (-1)] (new_Buffer []))"
  by (simp add: run_ops_def read_def new_Buffer_def unpack_array_def calcsize_B)

section \<open>Strings: the encoder and the round trip\<close>

lemma utf8_encode_ascii:
  "c < 128 \<Longrightarrow> utf8_encode (replicate n c) = Inr (replicate n (of_nat c))"
  by (induction n) (simp_all add: utf8_char_def)

text \<open>
  The encoder alone: the prefix is the unsigned encoding of the byte length, and
  \<^verbatim>\<open>max_bits=16\<close> admits the lengths below \<open>2^15\<close> only.
\<close>

lemma pack_string_prefix:
  assumes "utf8_encode s = Inr bs"
  shows "pack_string s
           = (if length bs < 2 ^ 15 then Inr (uleb128 (length bs) @ bs) else Inl ValueError)"
proof (cases "length bs < 2 ^ 15")
  case True
  then have "int (length bs) < 2 ^ 15" by (metis of_nat_less_iff of_nat_numeral of_nat_power) 
  then have "pack_varint (int (length bs)) 16 = Inr (uleb128 (nat (int (length bs))))"
    by (intro pack_varint_unsigned) simp_all
  then show ?thesis using True assms by (simp add: pack_string_def)
next
  case False
  then have "2 ^ 15 \<le> int (length bs)" by (metis of_nat_le_iff of_nat_numeral of_nat_power not_less)
  then have "pack_varint (int (length bs)) 16 = Inl ValueError"
    by (intro pack_varint_out_of_range) simp_all
  then show ?thesis using False assms by (simp add: pack_string_def)
qed

lemma pack_string_rejects_32768:
  "pack_string (replicate 32768 97) = Inl ValueError"
proof -
  have "utf8_encode (replicate 32768 97) = Inr (replicate 32768 97)"
    using utf8_encode_ascii [of 97 32768] by simp
  from pack_string_prefix [OF this] show ?thesis by simp
qed

text \<open>
  C4. The string round trip, at \<open>s = 'hi'\<close>: \<^verbatim>\<open>pack_string\<close> gives \<open>02 68 69\<close>, and
  \<^verbatim>\<open>unpack_string\<close> on a fresh Buffer over these bytes raises \<^verbatim>\<open>struct.error\<close>
  where the claim has it return the string.
\<close>

theorem string_roundtrip_raises:
  "pack_string [104, 105] = Inr [2, 104, 105]
     \<and> fst (unpack_string (new_Buffer [2, 104, 105])) = Inl StructError"
proof -
  have "utf8_encode [104, 105] = Inr [104, 105]" by (simp add: utf8_char_def)
  from pack_string_prefix [OF this] show ?thesis
    by (simp add: uleb128.simps unpack_string_raises)
qed

end
